theory Spec2Isabelle
  imports Main "HOL-Library.Sublist"
begin

section \<open>Python values\<close>

text \<open>
  A Python \<open>str\<close> is a sequence of Unicode code points, so it is modelled as a list of
  natural numbers (one per code point); \<open>bytes\<close> are modelled as \<open>string\<close>, whose
  characters are 8-bit. \<open>u\<close> turns an ASCII literal into the code points it denotes.
\<close>

type_synonym ustr = "nat list"

definition u :: "string \<Rightarrow> ustr" where
  "u s = map of_char s"

text \<open>
  The values that \<open>json.loads\<close> and \<open>request.get_json\<close> produce: \<open>None\<close>, booleans,
  integers, strings, lists and dicts. A dict is an association list read with
  \<open>map_of\<close>. Numbers with a fractional part are left out of the model.
\<close>

datatype pyval =
    PyNone
  | PyBool bool
  | PyInt int
  | PyStr ustr
  | PyList "pyval list"
  | PyDict "(ustr \<times> pyval) list"

datatype exn = RequestException | ValueError | TypeError | AttributeError | KeyError

text \<open>Truth value of an object, as tested by \<open>if x\<close> and \<open>not x\<close>.\<close>

fun truthy :: "pyval \<Rightarrow> bool" where
  "truthy PyNone = False"
| "truthy (PyBool b) = b"
| "truthy (PyInt i) = (i \<noteq> 0)"
| "truthy (PyStr s) = (s \<noteq> [])"
| "truthy (PyList xs) = (xs \<noteq> [])"
| "truthy (PyDict kvs) = (kvs \<noteq> [])"

fun isinstance_str :: "pyval \<Rightarrow> bool" where
  "isinstance_str (PyStr s) = True"
| "isinstance_str v = False"

text \<open>\<open>k in x\<close> for a string key \<open>k\<close>: key membership in a dict, substring test in a
  string, element membership in a list; any other object is not iterable.\<close>

fun py_contains :: "pyval \<Rightarrow> ustr \<Rightarrow> exn + bool" where
  "py_contains (PyDict kvs) k = Inr (map_of kvs k \<noteq> None)"
| "py_contains (PyStr s) k = Inr (sublist k s)"
| "py_contains (PyList xs) k = Inr (PyStr k \<in> set xs)"
| "py_contains v k = Inl TypeError"

text \<open>\<open>x[k]\<close> for a string key \<open>k\<close>.\<close>

fun py_getitem :: "pyval \<Rightarrow> ustr \<Rightarrow> exn + pyval" where
  "py_getitem (PyDict kvs) k = (case map_of kvs k of None \<Rightarrow> Inl KeyError | Some v \<Rightarrow> Inr v)"
| "py_getitem v k = Inl TypeError"

text \<open>\<open>x.get(k, default)\<close>: only a dict has the method.\<close>

fun py_get :: "pyval \<Rightarrow> ustr \<Rightarrow> pyval \<Rightarrow> exn + pyval" where
  "py_get (PyDict kvs) k dflt = (case map_of kvs k of None \<Rightarrow> Inr dflt | Some v \<Rightarrow> Inr v)"
| "py_get v k dflt = Inl AttributeError"

text \<open>Decimal digits of a natural number, and \<open>str(x)\<close> as an f-string slot applies it.
  The text of a non-empty list or dict is not modelled: \<open>py_str\<close> has no equation there.\<close>

fun decimal :: "nat \<Rightarrow> ustr" where
  "decimal n = (if n < 10 then [48 + n] else decimal (n div 10) @ [48 + n mod 10])"

declare decimal.simps [simp del]

fun py_str :: "pyval \<Rightarrow> ustr" where
  "py_str PyNone = u ''None''"
| "py_str (PyBool b) = (if b then u ''True'' else u ''False'')"
| "py_str (PyInt i) = (if i < 0 then u ''-'' @ decimal (nat (- i)) else decimal (nat i))"
| "py_str (PyStr s) = s"
| "py_str (PyList []) = u ''[]''"
| "py_str (PyDict []) = u ''{}''"

section \<open>Language Detector\<close>

text \<open>\<open>re.search\<close> and \<open>re.sub(_, '', _)\<close> for a pattern that is one character class:
  the scan goes left to right over the code points.\<close>

fun re_search_class :: "(nat \<Rightarrow> bool) \<Rightarrow> ustr \<Rightarrow> bool" where
  "re_search_class p [] = False"
| "re_search_class p (c # cs) = (if p c then True else re_search_class p cs)"

fun re_sub_class :: "(nat \<Rightarrow> bool) \<Rightarrow> ustr \<Rightarrow> ustr" where
  "re_sub_class p [] = []"
| "re_sub_class p (c # cs) = (if p c then re_sub_class p cs else c # re_sub_class p cs)"

text \<open>\<open>s.replace(c, '')\<close> for a one-character \<open>c\<close>.\<close>

fun replace_char :: "nat \<Rightarrow> ustr \<Rightarrow> ustr" where
  "replace_char q [] = []"
| "replace_char q (c # cs) = (if c = q then replace_char q cs else c # replace_char q cs)"

text \<open>The character class of \<open>is_arabic\<close>: U+0600 to U+06FF.\<close>

definition arabic_block :: "nat \<Rightarrow> bool" where
  "arabic_block c \<longleftrightarrow> 0x600 \<le> c \<and> c \<le> 0x6FF"

definition is_arabic :: "pyval \<Rightarrow> bool" where
  "is_arabic text =
     (if \<not> truthy text \<or> \<not> isinstance_str text then False
      else (case text of PyStr s \<Rightarrow> re_search_class arabic_block s | _ \<Rightarrow> False))"

text \<open>The source language as \<open>generate\<close> derives it from the request text.\<close>

definition source_language :: "pyval \<Rightarrow> ustr" where
  "source_language original_text = (if is_arabic original_text then u ''Arabic'' else u ''English'')"

section \<open>Response Cleaner\<close>

text \<open>The character class \<open>arabic_diacritics\<close>: U+064B to U+065F, and U+0670.\<close>

definition arabic_diacritics :: "nat \<Rightarrow> bool" where
  "arabic_diacritics c \<longleftrightarrow> (0x64B \<le> c \<and> c \<le> 0x65F) \<or> c = 0x670"

text \<open>A falsy argument is returned as it is; \<open>re.sub\<close> raises \<open>TypeError\<close> on an
  argument that is not a string.\<close>

definition clean_response :: "pyval \<Rightarrow> exn + pyval" where
  "clean_response text =
     (if \<not> truthy text then Inr text
      else (case text of
              PyStr s \<Rightarrow>
                (let cleaned_text = re_sub_class arabic_diacritics s;
                     cleaned_text = replace_char 0x3F cleaned_text
                 in Inr (PyStr cleaned_text))
            | _ \<Rightarrow> Inl TypeError))"

section \<open>Prompt Builder\<close>

text \<open>The literal of \<open>diacritics_rule\<close> when the target language is Arabic.\<close>

definition diacritics_rule_arabic :: ustr where
  \<open>diacritics_rule_arabic =
     u ''1. **ABSOLUTELY CRITICAL**: Your response MUST NOT contain any Arabic diacritics (Tashkeel / formations).\<newline>''
   @ u ''   - **Example (Good)**: "''
   @ [0x645, 0x631, 0x62D, 0x628, 0x627]
   @ u ''"\<newline>''
   @ u ''2. **CRITICAL**: Do NOT output any question mark `?` characters.''\<close>

text \<open>The two f-strings of \<open>other_rules\<close>.\<close>

definition other_rules_arabic :: "ustr \<Rightarrow> ustr \<Rightarrow> ustr" where
  \<open>other_rules_arabic source_lang target_lang =
     u ''3. Your response MUST contain ONLY the translated text.\<newline>''
   @ u ''4. Do NOT add any comments, explanations, or introductory phrases.\<newline>''
   @ u ''5. **CRITICAL**: You MUST convert every single ''
   @ source_lang
   @ u '' word into ''
   @ target_lang
   @ u ''.''\<close>

definition other_rules_english :: "ustr \<Rightarrow> ustr \<Rightarrow> ustr" where
  \<open>other_rules_english source_lang target_lang =
     u ''1. Your response MUST contain ONLY the translated text.\<newline>''
   @ u ''2. Do NOT add any comments.\<newline>''
   @ u ''3. **CRITICAL**: You MUST convert every single ''
   @ source_lang
   @ u '' word into ''
   @ target_lang
   @ u ''.''\<close>

text \<open>The f-string returned for \<open>translate\<close>.\<close>

definition translate_template :: "ustr \<Rightarrow> ustr \<Rightarrow> ustr \<Rightarrow> ustr \<Rightarrow> ustr \<Rightarrow> ustr" where
  \<open>translate_template source_lang target_lang diacritics_rule other_rules text =
     u ''<start_of_turn>user\<newline>''
   @ u ''You are a direct translation engine. Translate the provided ''
   @ source_lang
   @ u '' text to ''
   @ target_lang
   @ u ''.\<newline>''
   @ u ''\<newline>''
   @ u ''Follow these rules exactly:\<newline>''
   @ diacritics_rule
   @ u ''\<newline>''
   @ other_rules
   @ u ''\<newline>''
   @ u ''\<newline>''
   @ u ''### TASK ###\<newline>''
   @ source_lang
   @ u '' Text: "''
   @ text
   @ u ''"<end_of_turn>\<newline>''
   @ u ''<start_of_turn>model\<newline>''\<close>

text \<open>The f-string returned for \<open>tokenize\<close>.\<close>

definition tokenize_template :: "ustr \<Rightarrow> ustr \<Rightarrow> ustr \<Rightarrow> ustr \<Rightarrow> ustr" where
  \<open>tokenize_template source_lang tag_lang json_key text =
     u ''<start_of_turn>user\<newline>''
   @ u ''You are a JSON output machine. Your only function is to output a specific JSON structure. Follow these steps exactly:\<newline>''
   @ u ''\<newline>''
   @ u ''1.  Analyze this ''
   @ source_lang
   @ u '' text: "''
   @ text
   @ u ''"\<newline>''
   @ u ''2.  Extract the key nouns, entities, and concepts for use as search tags.\<newline>''
   @ u ''3.  **All tags MUST be in ''
   @ tag_lang
   @ u ''.** Do not mix languages.\<newline>''
   @ u ''4.  **Correct any spelling errors and standardize abbreviations.**\<newline>''
   @ u ''5.  Remove all stop words, non-essential words, and duplicate entries.\<newline>''
   @ u ''6.  If generating ''
   @ tag_lang
   @ u '' tags, do NOT include any diacritics (Tashkeel / formations).\<newline>''
   @ u ''7.  Output **NOTHING** except for the completed JSON structure below. Do not use markdown.\<newline>''
   @ u ''\<newline>''
   @ u ''COPY AND PASTE THIS TEMPLATE, THEN FILL IT IN:\<newline>''
   @ u ''{"''
   @ json_key
   @ u ''": []}\<newline>''
   @ u ''\<newline>''
   @ u ''Your entire response must be only the filled-out template.<end_of_turn>\<newline>''
   @ u ''<start_of_turn>model\<newline>''\<close>

text \<open>The f-string returned for \<open>rephrase\<close>.\<close>

definition rephrase_template :: "ustr \<Rightarrow> ustr \<Rightarrow> ustr" where
  \<open>rephrase_template source_lang text =
     u ''<start_of_turn>user\<newline>''
   @ u ''You are a professional editor. Your task is to rewrite the following ''
   @ source_lang
   @ u '' text to be clearer, more concise, and more professional, while strictly preserving the original meaning.\<newline>''
   @ u ''\<newline>''
   @ u ''Rules:\<newline>''
   @ u ''1. Do NOT change the language. Keep it in ''
   @ source_lang
   @ u ''.\<newline>''
   @ u ''2. Output ONLY the rephrased text. No conversational filler.\<newline>''
   @ u ''3. If the text is Arabic, do NOT use diacritics (Tashkeel).\<newline>''
   @ u ''\<newline>''
   @ u ''Text: "''
   @ text
   @ u ''"<end_of_turn>\<newline>''
   @ u ''<start_of_turn>model\<newline>''\<close>

text \<open>
  \<open>create_prompt\<close>. The text is a string; the task is whatever value the request
  carries, compared with \<open>==\<close> against the three task names, so a task that is not a
  string equals none of them.
\<close>

definition create_prompt :: "ustr \<Rightarrow> pyval \<Rightarrow> ustr \<Rightarrow> ustr" where
  "create_prompt text task source_lang =
     (if task = PyStr (u ''translate'') then
        (let target_lang = (if source_lang = u ''English'' then u ''Arabic'' else u ''English'');
             diacritics_rule = (if target_lang = u ''Arabic'' then diacritics_rule_arabic else []);
             other_rules = (if target_lang = u ''Arabic''
                            then other_rules_arabic source_lang target_lang
                            else other_rules_english source_lang target_lang)
         in translate_template source_lang target_lang diacritics_rule other_rules text)
      else if task = PyStr (u ''tokenize'') then
        (let tag_lang = (if source_lang = u ''Arabic'' then u ''Arabic'' else u ''English'');
             json_key = (if source_lang = u ''Arabic'' then u ''arabic_tags'' else u ''english_tags'')
         in tokenize_template source_lang tag_lang json_key text)
      else if task = PyStr (u ''rephrase'') then rephrase_template source_lang text
      else text)"

section \<open>Streaming Relay\<close>

text \<open>
  The upstream as the generator sees it. \<open>requests.post\<close> followed by
  \<open>raise_for_status\<close> either raises a \<open>RequestException\<close> or gives a response, whose
  \<open>iter_lines()\<close> hands out one line of bytes after the other and then either ends or
  raises a \<open>RequestException\<close> (a broken transfer).
\<close>

datatype line_iter = StopIteration | Broken | Next string line_iter

datatype upstream = PostFails | Response line_iter

text \<open>
  The body of the \<open>if 'response' in decoded_chunk and ...\<close> statement: the frames it
  yields (none or one), or the exception it raises.
\<close>

definition fragment_frames :: "pyval \<Rightarrow> exn + ustr list" where
  \<open>fragment_frames decoded_chunk =
     (case py_contains decoded_chunk (u ''response'') of
        Inl e \<Rightarrow> Inl e
      | Inr False \<Rightarrow> Inr []
      | Inr True \<Rightarrow>
          (case py_getitem decoded_chunk (u ''response'') of
             Inl e \<Rightarrow> Inl e
           | Inr raw_response \<Rightarrow>
               if raw_response = PyNone then Inr []
               else (case clean_response raw_response of
                       Inl e \<Rightarrow> Inl e
                     | Inr cleaned_response \<Rightarrow>
                         Inr [u ''data: '' @ py_str cleaned_response @ u ''\<newline>\<newline>''])))\<close>

text \<open>The test \<open>decoded_chunk.get('done', False)\<close>.\<close>

definition chunk_done :: "pyval \<Rightarrow> exn + bool" where
  "chunk_done decoded_chunk =
     (case py_get decoded_chunk (u ''done'') (PyBool False) of
        Inl e \<Rightarrow> Inl e
      | Inr d \<Rightarrow> Inr (truthy d))"

text \<open>
  The \<open>for\<close> loop over the lines. \<open>json_loads\<close> stands for
  \<open>json.loads(chunk.decode('utf-8'))\<close>, with \<open>None\<close> where it raises (a
  \<open>ValueError\<close>: the line is not UTF-8 or not JSON). The result is the frames yielded
  and the exception that left the loop, if one did; after a \<open>break\<close> the rest of the
  iterator is not read.
\<close>

fun relay_loop :: "(string \<Rightarrow> pyval option) \<Rightarrow> line_iter \<Rightarrow> ustr list \<times> exn option" where
  "relay_loop json_loads StopIteration = ([], None)"
| "relay_loop json_loads Broken = ([], Some RequestException)"
| "relay_loop json_loads (Next chunk rest) =
     (if chunk = [] then relay_loop json_loads rest
      else (case json_loads chunk of
              None \<Rightarrow> ([], Some ValueError)
            | Some decoded_chunk \<Rightarrow>
                (case fragment_frames decoded_chunk of
                   Inl e \<Rightarrow> ([], Some e)
                 | Inr frames \<Rightarrow>
                     (case chunk_done decoded_chunk of
                        Inl e \<Rightarrow> (frames, Some e)
                      | Inr done \<Rightarrow>
                          if done then (frames, None)
                          else (case relay_loop json_loads rest of
                                  (more, r) \<Rightarrow> (frames @ more, r))))))"

definition end_of_stream :: ustr where
  \<open>end_of_stream = u ''data: [END_OF_STREAM]\<newline>\<newline>''\<close>

definition error_event :: ustr where
  \<open>error_event = u ''data: [ERROR]\<newline>\<newline>''\<close>

text \<open>
  \<open>generator\<close>: the frames of the outbound stream, and the exception that ended the
  generator when it was not caught. Only a \<open>RequestException\<close> is caught.
\<close>

definition generator :: "(string \<Rightarrow> pyval option) \<Rightarrow> upstream \<Rightarrow> ustr list \<times> exn option" where
  "generator json_loads up =
     (case up of
        PostFails \<Rightarrow> ([error_event], None)
      | Response lines \<Rightarrow>
          (case relay_loop json_loads lines of
             (frames, None) \<Rightarrow> (frames @ [end_of_stream], None)
           | (frames, Some RequestException) \<Rightarrow> (frames @ [error_event], None)
           | (frames, Some e) \<Rightarrow> (frames, Some e)))"

text \<open>
  A decoder for the sample lines of the examples below: what \<open>json.loads\<close> gives on
  these three lines; every other line is taken as undecodable.
\<close>

definition sample_loads :: "string \<Rightarrow> pyval option" where
  \<open>sample_loads chunk =
     (if chunk = ''{"response": "Hi"}'' then Some (PyDict [(u ''response'', PyStr (u ''Hi''))])
      else if chunk = ''{"response": "Hi?", "done": true}''
        then Some (PyDict [(u ''response'', PyStr (u ''Hi?'')), (u ''done'', PyBool True)])
      else if chunk = ''{"done": false}'' then Some (PyDict [(u ''done'', PyBool False)])
      else None)\<close>

section \<open>Properties of the cleaner and the detector\<close>

lemma re_sub_class_filter: "re_sub_class p s = filter (\<lambda>c. \<not> p c) s"
  by (induction s) simp_all

lemma replace_char_filter: "replace_char q s = filter (\<lambda>c. c \<noteq> q) s"
  by (induction s) simp_all

lemma re_search_class_iff: "re_search_class p s \<longleftrightarrow> (\<exists>c \<in> set s. p c)"
  by (induction s) simp_all

lemma clean_response_str:
  "clean_response (PyStr s) = Inr (PyStr (filter (\<lambda>c. \<not> arabic_diacritics c \<and> c \<noteq> 0x3F) s))"
  by (cases s) (simp_all add: clean_response_def re_sub_class_filter replace_char_filter conj_commute)

text \<open>
  C3. On a string, \<open>clean_response\<close> returns the string without its code points in
  U+064B..U+065F, U+0670 and without \<open>?\<close> (U+003F), the others kept in order; the empty
  string and \<open>None\<close> come back as they are; and the example of the specification (the
  word with its diacritics and a question mark) gives the bare five letters.
\<close>

theorem clean_response_removes:
  "clean_response (PyStr s) = Inr (PyStr (filter (\<lambda>c. \<not> arabic_diacritics c \<and> c \<noteq> 0x3F) s))
   \<and> clean_response (PyStr []) = Inr (PyStr [])
   \<and> clean_response PyNone = Inr PyNone
   \<and> clean_response (PyStr [0x645, 0x64E, 0x631, 0x652, 0x62D, 0x64E, 0x628, 0x64B, 0x627, 0x3F])
       = Inr (PyStr [0x645, 0x631, 0x62D, 0x628, 0x627])"
proof -
  have "clean_response (PyStr [0x645, 0x64E, 0x631, 0x652, 0x62D, 0x64E, 0x628, 0x64B, 0x627, 0x3F])
       = Inr (PyStr [0x645, 0x631, 0x62D, 0x628, 0x627])"
    by (simp add: clean_response_def arabic_diacritics_def)
  moreover have "clean_response (PyStr []) = Inr (PyStr [])" "clean_response PyNone = Inr PyNone"
    by (simp_all add: clean_response_def)
  ultimately show ?thesis using clean_response_str by simp
qed

text \<open>
  C9. Cleaning is idempotent: the result of cleaning a string is a value that cleaning
  returns unchanged; and a string with no diacritic and no \<open>?\<close> is returned identical.
\<close>

theorem clean_response_idempotent:
  "(\<exists>r. clean_response (PyStr t) = Inr r \<and> clean_response r = Inr r)
   \<and> ((\<forall>c \<in> set t. \<not> arabic_diacritics c \<and> c \<noteq> 0x3F) \<longrightarrow> clean_response (PyStr t) = Inr (PyStr t))"
proof
  show "\<exists>r. clean_response (PyStr t) = Inr r \<and> clean_response r = Inr r"
    by (simp add: clean_response_str)
  show "(\<forall>c \<in> set t. \<not> arabic_diacritics c \<and> c \<noteq> 0x3F) \<longrightarrow> clean_response (PyStr t) = Inr (PyStr t)"
    by (simp add: clean_response_str filter_id_conv)
qed

theorem clean_response_idempotent_witness:
  "list_all (\<lambda>c. \<not> arabic_diacritics c \<and> c \<noteq> 0x3F) [0x645, 0x631, 0x62D]
   \<and> clean_response (PyStr [0x645, 0x631, 0x62D]) = Inr (PyStr [0x645, 0x631, 0x62D])
   \<and> (\<exists>r. clean_response (PyStr [0x645, 0x64E, 0x3F]) = Inr r \<and> clean_response r = Inr r)"
  using clean_response_idempotent [of "[0x645, 0x631, 0x62D]"] clean_response_idempotent [of "[0x645, 0x64E, 0x3F]"]
  by (simp add: arabic_diacritics_def)

text \<open>
  C4. A string with at least one code point in U+0600..U+06FF is classified as Arabic;
  an all-ASCII string, the empty string, \<open>None\<close> and any value that is not a string are
  classified as English. \<open>is_arabic\<close> is total: no input makes it raise.
\<close>

theorem is_arabic_classifies:
  "((\<exists>c \<in> set s. arabic_block c) \<longrightarrow> source_language (PyStr s) = u ''Arabic'')
   \<and> ((\<forall>c \<in> set s. c < 128) \<longrightarrow> source_language (PyStr s) = u ''English'')
   \<and> source_language (PyStr []) = u ''English''
   \<and> source_language PyNone = u ''English''
   \<and> (\<not> isinstance_str v \<longrightarrow> source_language v = u ''English'')"
proof -
  have a: "is_arabic (PyStr s) \<longleftrightarrow> (\<exists>c \<in> set s. arabic_block c)"
    by (cases s) (simp_all add: is_arabic_def re_search_class_iff)
  have b: "(\<forall>c \<in> set s. c < 128) \<Longrightarrow> \<not> (\<exists>c \<in> set s. arabic_block c)"
    by (fastforce simp: arabic_block_def)
  have c: "\<not> isinstance_str v \<Longrightarrow> \<not> is_arabic v"
    by (simp add: is_arabic_def)
  show ?thesis using a b c by (auto simp: source_language_def is_arabic_def)
qed

theorem is_arabic_classifies_witness:
  "(\<exists>c \<in> set [72, 0x645 :: nat]. arabic_block c) \<and> source_language (PyStr [72, 0x645]) = u ''Arabic''
   \<and> list_all (\<lambda>c. c < 128) [72, 105 :: nat] \<and> source_language (PyStr [72, 105]) = u ''English''
   \<and> \<not> isinstance_str (PyInt 7) \<and> source_language (PyInt 7) = u ''English''"
  using is_arabic_classifies [of "[72, 0x645]" "PyInt 7"] is_arabic_classifies [of "[72, 105]" "PyInt 7"]
  by (simp add: arabic_block_def)

section \<open>Properties of the prompt builder\<close>

lemma sublist_skip: "sublist xs ys \<Longrightarrow> sublist xs (ps @ ys)"
  by (simp add: sublist_append)

lemma sublist_slot: "prefix b c \<Longrightarrow> sublist (a @ k @ b) (a @ k @ c @ rest)"
proof -
  assume "prefix b c"
  then obtain d where "c = b @ d" by (auto simp: prefix_def)
  then have "a @ k @ c @ rest = [] @ (a @ k @ b) @ (d @ rest)" by simp
  then show ?thesis unfolding sublist_def by blast
qed

lemma sublist_text_translate: "sublist text (translate_template s t d r text)"
  unfolding translate_template_def
  by (rule sublist_append_rightI | rule sublist_skip)+

lemma sublist_text_tokenize: "sublist text (tokenize_template s t k text)"
  unfolding tokenize_template_def
  by (rule sublist_append_rightI | rule sublist_skip)+

lemma sublist_text_rephrase: "sublist text (rephrase_template s text)"
  unfolding rephrase_template_def
  by (rule sublist_append_rightI | rule sublist_skip)+

lemma translate_template_nonempty: "translate_template s t d r text \<noteq> []"
  by (simp add: translate_template_def u_def)

lemma tokenize_template_nonempty: "tokenize_template s t k text \<noteq> []"
  by (simp add: tokenize_template_def u_def)

lemma rephrase_template_nonempty: "rephrase_template s text \<noteq> []"
  by (simp add: rephrase_template_def u_def)

text \<open>
  C5, as the specification states it, fails: with a task that is none of the three and
  the empty text, the prompt is the empty string.
\<close>

theorem create_prompt_empty_counterexample:
  "create_prompt [] (PyStr (u ''summarize'')) (u ''English'') = []"
  by (simp add: create_prompt_def u_def)

text \<open>
  C5, amended. For every text, task and source language the prompt contains the text
  verbatim as a substring; and the prompt is non-empty whenever the task is one of
  \<open>translate\<close>, \<open>tokenize\<close>, \<open>rephrase\<close> or the text is non-empty.
\<close>

theorem create_prompt_contains_text:
  "sublist text (create_prompt text task source_lang)
   \<and> ((task = PyStr (u ''translate'') \<or> task = PyStr (u ''tokenize'') \<or> task = PyStr (u ''rephrase'') \<or> text \<noteq> [])
        \<longrightarrow> create_prompt text task source_lang \<noteq> [])"
  by (simp add: create_prompt_def Let_def sublist_text_translate sublist_text_tokenize
      sublist_text_rephrase translate_template_nonempty tokenize_template_nonempty
      rephrase_template_nonempty)

theorem create_prompt_contains_text_witness:
  "sublist (u ''Hi'') (create_prompt (u ''Hi'') (PyStr (u ''rephrase'')) (u ''English''))
   \<and> create_prompt (u ''Hi'') (PyStr (u ''rephrase'')) (u ''English'') \<noteq> []
   \<and> u ''Hi'' \<noteq> [] \<and> create_prompt (u ''Hi'') PyNone (u ''English'') \<noteq> []"
  using create_prompt_contains_text [of "u ''Hi''" "PyStr (u ''rephrase'')" "u ''English''"]
    create_prompt_contains_text [of "u ''Hi''" PyNone "u ''English''"]
  by (simp add: u_def)

lemma sublist_first5: "sublist w (a @ b @ c @ d @ e) \<Longrightarrow> sublist w (a @ b @ c @ d @ e @ rest)"
proof -
  assume "sublist w (a @ b @ c @ d @ e)"
  then obtain ps ss where "a @ b @ c @ d @ e = ps @ w @ ss" by (auto simp: sublist_def)
  then have "(a @ b @ c @ d @ e) @ rest = ps @ w @ (ss @ rest)" by simp
  then have "a @ b @ c @ d @ e @ rest = ps @ w @ (ss @ rest)" by simp
  then show ?thesis unfolding sublist_def by blast
qed

lemma sublist_between:
  assumes sub: "sublist w (pre @ text @ post)"
    and q: "q \<in> set w" "q \<notin> set pre"
    and l: "w \<noteq> []" "last w \<notin> set post"
    and ov: "\<And>a. a \<noteq> [] \<Longrightarrow> prefix a w \<Longrightarrow> suffix a pre \<Longrightarrow> False"
  shows "sublist w text"
proof -
  have inner: "sublist w text" if "sublist w (text @ post)"
  proof -
    from that consider "sublist w text" | "sublist w post"
      | a b where "w = a @ b" "suffix a text" "prefix b post"
      by (auto simp: sublist_append)
    then show ?thesis
    proof cases
      case 1 then show ?thesis .
    next
      case 2
      then have "set w \<subseteq> set post" by (rule set_mono_sublist)
      with l show ?thesis by (meson last_in_set subsetD)
    next
      case 3
      show ?thesis
      proof (cases "b = []")
        case True
        with 3 show ?thesis by (simp add: suffix_imp_sublist)
      next
        case False
        then have "last w = last b" using 3 by simp
        moreover have "set b \<subseteq> set post" using 3 by (simp add: set_mono_prefix)
        ultimately show ?thesis using l False by (metis last_in_set subsetD)
      qed
    qed
  qed
  from sub consider "sublist w pre" | "sublist w (text @ post)"
    | a b where "w = a @ b" "suffix a pre" "prefix b (text @ post)"
    by (auto simp: sublist_append)
  then show ?thesis
  proof cases
    case 1
    then have "set w \<subseteq> set pre" by (rule set_mono_sublist)
    with q show ?thesis by blast
  next
    case 2 then show ?thesis by (rule inner)
  next
    case 3
    show ?thesis
    proof (cases "a = []")
      case True
      with 3 have "sublist w (text @ post)" by (simp add: prefix_imp_sublist)
      then show ?thesis by (rule inner)
    next
      case False
      moreover have "prefix a w" using 3 by simp
      ultimately show ?thesis using ov 3 by blast
    qed
  qed
qed


lemma tail_no_overlap:
  assumes "a \<noteq> []" "prefix a w" \<open>suffix a (pre @ u ''t: "'')\<close>
    and \<open>\<not> sublist (u ''t: "'') w\<close> "34 \<notin> set (take 3 w)"
  shows False
proof (cases "4 \<le> length a")
  case True
  have \<open>suffix (u ''t: "'') (pre @ u ''t: "'')\<close> by (simp add: suffix_def)
  moreover have \<open>length (u ''t: "'') \<le> length a\<close> using True by (simp add: u_def)
  ultimately have \<open>suffix (u ''t: "'') a\<close> using assms(3) by (meson suffix_length_suffix)
  then have \<open>sublist (u ''t: "'') a\<close> by (rule suffix_imp_sublist)
  moreover have "sublist a w" using assms(2) by (rule prefix_imp_sublist)
  ultimately have \<open>sublist (u ''t: "'') w\<close> by (rule sublist_order.order.trans)
  with assms(4) show False by contradiction
next
  case False
  have "a = take (length a) w"
    using assms(2) by (metis append_eq_conv_conj prefix_def)
  moreover have "set (take (length a) w) \<subseteq> set (take 3 w)"
    using False by (intro set_take_subset_set_take) simp
  ultimately have "set a \<subseteq> set (take 3 w)" by simp
  then have "last a \<in> set (take 3 w)" using assms(1) by (meson last_in_set subsetD)
  moreover have \<open>last a = last (pre @ u ''t: "'')\<close>
    using assms(1,3) by (auto simp: suffix_def)
  ultimately show False using assms(5) by (simp add: u_def)
qed

lemma translate_arabic_source:
  \<open>create_prompt text (PyStr (u ''translate'')) (u ''Arabic'')
     = translate_template (u ''Arabic'') (u ''English'') [] (other_rules_english (u ''Arabic'') (u ''English'')) text\<close>
  by (simp add: create_prompt_def Let_def u_def)

lemma translate_english_source:
  \<open>create_prompt text (PyStr (u ''translate'')) (u ''English'')
     = translate_template (u ''English'') (u ''Arabic'') diacritics_rule_arabic
         (other_rules_arabic (u ''English'') (u ''Arabic'')) text\<close>
  by (simp add: create_prompt_def Let_def u_def)

lemma translate_sentence:
  \<open>sublist (u ''Translate the provided '' @ s @ u '' text to '' @ t @ u ''.'')
     (translate_template s t d r text)\<close>
proof -
  have \<open>sublist (u ''Translate the provided '' @ s @ u '' text to '' @ t @ u ''.'')
     (u ''You are a direct translation engine. Translate the provided '' @ s @ u '' text to '' @ t @ u ''.\<newline>'')\<close>
  proof -
    have \<open>u ''You are a direct translation engine. Translate the provided '' @ s @ u '' text to '' @ t @ u ''.\<newline>''
        = u ''You are a direct translation engine. ''
          @ (u ''Translate the provided '' @ s @ u '' text to '' @ t @ u ''.'') @ u ''\<newline>''\<close>
      by (simp add: u_def)
    then show ?thesis unfolding sublist_def by blast
  qed
  then show ?thesis
    unfolding translate_template_def
    by (intro sublist_skip [where ps = \<open>u ''<start_of_turn>user\<newline>''\<close>] sublist_first5)
qed

lemma arabic_prompt_marker_iff:
  assumes w: "w \<noteq> []" "last w = 46" "34 \<notin> set (take 3 w)" \<open>\<not> sublist (u ''t: "'') w\<close>
    and q: "q \<in> set w" "q = 40 \<or> q = 63"
  shows \<open>sublist w (create_prompt text (PyStr (u ''translate'')) (u ''Arabic'')) \<longleftrightarrow> sublist w text\<close>
proof
  define pre where
    \<open>pre = u ''<start_of_turn>user\<newline>''
       @ u ''You are a direct translation engine. Translate the provided Arabic text to English.\<newline>''
       @ u ''\<newline>''
       @ u ''Follow these rules exactly:\<newline>''
       @ u ''\<newline>''
       @ other_rules_english (u ''Arabic'') (u ''English'')
       @ u ''\<newline>''
       @ u ''\<newline>''
       @ u ''### TASK ###\<newline>''
       @ u ''Arabic Tex''\<close>
  define post where \<open>post = u ''"<end_of_turn>\<newline><start_of_turn>model\<newline>''\<close>
  have split: \<open>create_prompt text (PyStr (u ''translate'')) (u ''Arabic'') = (pre @ u ''t: "'') @ text @ post\<close>
    unfolding translate_arabic_source
    by (simp add: translate_template_def pre_def post_def u_def)
  have \<open>40 \<notin> set (pre @ u ''t: "'')\<close> \<open>63 \<notin> set (pre @ u ''t: "'')\<close>
    by (simp_all add: pre_def other_rules_english_def u_def)
  with q have npre: \<open>q \<notin> set (pre @ u ''t: "'')\<close> by blast
  have npost: "last w \<notin> set post"
    by (simp add: w post_def u_def)
  have ov: False if "a \<noteq> []" "prefix a w" \<open>suffix a (pre @ u ''t: "'')\<close> for a
    using that w(4,3) by (rule tail_no_overlap)
  show "sublist w text"
    if "sublist w (create_prompt text (PyStr (u ''translate'')) (u ''Arabic''))"
    using that unfolding split
    by (rule sublist_between [OF _ q(1) npre w(1) npost]) (rule ov)
  show "sublist w (create_prompt text (PyStr (u ''translate'')) (u ''Arabic''))"
    if "sublist w text"
    using that unfolding split by (simp add: sublist_append)
qed

lemma rule_marker:
  "diacritics_rule_arabic \<noteq> []" "last diacritics_rule_arabic = 46"
  "34 \<notin> set (take 3 diacritics_rule_arabic)" \<open>\<not> sublist (u ''t: "'') diacritics_rule_arabic\<close>
  "63 \<in> set diacritics_rule_arabic"
  by (simp_all add: diacritics_rule_arabic_def u_def sublist_code)

lemma sentence_marker_diacritics:
  \<open>u ''Your response MUST NOT contain any Arabic diacritics (Tashkeel / formations).'' \<noteq> []\<close>
  \<open>last (u ''Your response MUST NOT contain any Arabic diacritics (Tashkeel / formations).'') = 46\<close>
  \<open>34 \<notin> set (take 3 (u ''Your response MUST NOT contain any Arabic diacritics (Tashkeel / formations).''))\<close>
  \<open>\<not> sublist (u ''t: "'') (u ''Your response MUST NOT contain any Arabic diacritics (Tashkeel / formations).'')\<close>
  \<open>40 \<in> set (u ''Your response MUST NOT contain any Arabic diacritics (Tashkeel / formations).'')\<close>
  by (simp_all add: u_def sublist_code)

lemma sentence_marker_question:
  \<open>u ''Do NOT output any question mark `?` characters.'' \<noteq> []\<close>
  \<open>last (u ''Do NOT output any question mark `?` characters.'') = 46\<close>
  \<open>34 \<notin> set (take 3 (u ''Do NOT output any question mark `?` characters.''))\<close>
  \<open>\<not> sublist (u ''t: "'') (u ''Do NOT output any question mark `?` characters.'')\<close>
  \<open>63 \<in> set (u ''Do NOT output any question mark `?` characters.'')\<close>
  by (simp_all add: u_def sublist_code)

lemma rule_sentences:
  \<open>sublist (u ''Your response MUST NOT contain any Arabic diacritics (Tashkeel / formations).'') diacritics_rule_arabic\<close>
  \<open>sublist (u ''Do NOT output any question mark `?` characters.'') diacritics_rule_arabic\<close>
  by (simp_all add: diacritics_rule_arabic_def u_def sublist_code)

lemma rule_in_english_prompt:
  \<open>sublist diacritics_rule_arabic (create_prompt text (PyStr (u ''translate'')) (u ''English''))\<close>
  unfolding translate_english_source translate_template_def
  by (rule sublist_append_rightI | rule sublist_skip)+

text \<open>
  C6, as the specification states it, fails for a text that quotes the rule. The rule
  holds an Arabic word, so such a text is detected as Arabic, and the prompt for source
  Arabic embeds the text and with it the rule.
\<close>

theorem translate_quoted_rule_counterexample:
  \<open>source_language (PyStr diacritics_rule_arabic) = u ''Arabic''
   \<and> sublist diacritics_rule_arabic
        (create_prompt diacritics_rule_arabic (PyStr (u ''translate'')) (u ''Arabic''))\<close>
proof
  show \<open>source_language (PyStr diacritics_rule_arabic) = u ''Arabic''\<close>
    by (simp add: source_language_def is_arabic_def arabic_block_def diacritics_rule_arabic_def u_def)
  show \<open>sublist diacritics_rule_arabic
        (create_prompt diacritics_rule_arabic (PyStr (u ''translate'')) (u ''Arabic''))\<close>
    unfolding translate_arabic_source by (rule sublist_text_translate)
qed

text \<open>
  C6, amended. For the task \<open>translate\<close> and source language English the prompt is the
  translate template with target Arabic and the diacritics rule: it contains the
  sentence \<open>Translate the provided English text to Arabic.\<close>, the rule, and so the two
  sentences of the rule that forbid Arabic diacritics and question marks. For source
  language Arabic the prompt is the template with target English and an empty rule
  slot: it contains \<open>Translate the provided Arabic text to English.\<close>, and the rule, or
  either of its two sentences, occurs in the prompt exactly when it occurs in the input
  text itself; for a text that does not contain the rule, the prompt does not either.
\<close>

theorem translate_direction:
  \<open>create_prompt text (PyStr (u ''translate'')) (u ''English'')
     = translate_template (u ''English'') (u ''Arabic'') diacritics_rule_arabic
         (other_rules_arabic (u ''English'') (u ''Arabic'')) text
   \<and> sublist (u ''Translate the provided English text to Arabic.'')
        (create_prompt text (PyStr (u ''translate'')) (u ''English''))
   \<and> sublist diacritics_rule_arabic (create_prompt text (PyStr (u ''translate'')) (u ''English''))
   \<and> sublist (u ''Your response MUST NOT contain any Arabic diacritics (Tashkeel / formations).'')
        (create_prompt text (PyStr (u ''translate'')) (u ''English''))
   \<and> sublist (u ''Do NOT output any question mark `?` characters.'')
        (create_prompt text (PyStr (u ''translate'')) (u ''English''))
   \<and> create_prompt text (PyStr (u ''translate'')) (u ''Arabic'')
     = translate_template (u ''Arabic'') (u ''English'') [] (other_rules_english (u ''Arabic'') (u ''English'')) text
   \<and> sublist (u ''Translate the provided Arabic text to English.'')
        (create_prompt text (PyStr (u ''translate'')) (u ''Arabic''))
   \<and> (sublist diacritics_rule_arabic (create_prompt text (PyStr (u ''translate'')) (u ''Arabic''))
        \<longleftrightarrow> sublist diacritics_rule_arabic text)
   \<and> (sublist (u ''Your response MUST NOT contain any Arabic diacritics (Tashkeel / formations).'')
          (create_prompt text (PyStr (u ''translate'')) (u ''Arabic''))
        \<longleftrightarrow> sublist (u ''Your response MUST NOT contain any Arabic diacritics (Tashkeel / formations).'') text)
   \<and> (sublist (u ''Do NOT output any question mark `?` characters.'')
          (create_prompt text (PyStr (u ''translate'')) (u ''Arabic''))
        \<longleftrightarrow> sublist (u ''Do NOT output any question mark `?` characters.'') text)\<close>
proof -
  have e: \<open>u ''Translate the provided English text to Arabic.''
            = u ''Translate the provided '' @ u ''English'' @ u '' text to '' @ u ''Arabic'' @ u ''.''\<close>
    and a: \<open>u ''Translate the provided Arabic text to English.''
            = u ''Translate the provided '' @ u ''Arabic'' @ u '' text to '' @ u ''English'' @ u ''.''\<close>
    by (simp_all add: u_def)
  have s1: \<open>sublist (u ''Translate the provided English text to Arabic.'')
        (create_prompt text (PyStr (u ''translate'')) (u ''English''))\<close>
    unfolding e translate_english_source by (rule translate_sentence)
  have s2: \<open>sublist (u ''Translate the provided Arabic text to English.'')
        (create_prompt text (PyStr (u ''translate'')) (u ''Arabic''))\<close>
    unfolding a translate_arabic_source by (rule translate_sentence)
  have r1: \<open>sublist (u ''Your response MUST NOT contain any Arabic diacritics (Tashkeel / formations).'')
        (create_prompt text (PyStr (u ''translate'')) (u ''English''))\<close>
    using rule_sentences(1) rule_in_english_prompt by (rule sublist_order.order.trans)
  have r2: \<open>sublist (u ''Do NOT output any question mark `?` characters.'')
        (create_prompt text (PyStr (u ''translate'')) (u ''English''))\<close>
    using rule_sentences(2) rule_in_english_prompt by (rule sublist_order.order.trans)
  have i0: \<open>sublist diacritics_rule_arabic (create_prompt text (PyStr (u ''translate'')) (u ''Arabic''))
        \<longleftrightarrow> sublist diacritics_rule_arabic text\<close>
    by (rule arabic_prompt_marker_iff [OF rule_marker]) simp
  have i1: \<open>sublist (u ''Your response MUST NOT contain any Arabic diacritics (Tashkeel / formations).'')
          (create_prompt text (PyStr (u ''translate'')) (u ''Arabic''))
        \<longleftrightarrow> sublist (u ''Your response MUST NOT contain any Arabic diacritics (Tashkeel / formations).'') text\<close>
    by (rule arabic_prompt_marker_iff [OF sentence_marker_diacritics]) simp
  have i2: \<open>sublist (u ''Do NOT output any question mark `?` characters.'')
          (create_prompt text (PyStr (u ''translate'')) (u ''Arabic''))
        \<longleftrightarrow> sublist (u ''Do NOT output any question mark `?` characters.'') text\<close>
    by (rule arabic_prompt_marker_iff [OF sentence_marker_question]) simp
  show ?thesis
    by (intro conjI translate_english_source translate_arabic_source s1 s2 r1 r2
        rule_in_english_prompt i0 i1 i2)
qed

theorem translate_direction_witness:
  \<open>source_language (PyStr [0x645, 0x631, 0x62D, 0x628, 0x627]) = u ''Arabic''
   \<and> \<not> sublist diacritics_rule_arabic [0x645, 0x631, 0x62D, 0x628, 0x627]
   \<and> \<not> sublist diacritics_rule_arabic
        (create_prompt [0x645, 0x631, 0x62D, 0x628, 0x627] (PyStr (u ''translate'')) (u ''Arabic''))\<close>
proof -
  have n: "\<not> sublist diacritics_rule_arabic [0x645, 0x631, 0x62D, 0x628, 0x627]"
    by (simp add: diacritics_rule_arabic_def u_def sublist_code)
  have s: \<open>source_language (PyStr [0x645, 0x631, 0x62D, 0x628, 0x627]) = u ''Arabic''\<close>
    by (simp add: source_language_def is_arabic_def arabic_block_def)
  have \<open>sublist diacritics_rule_arabic
          (create_prompt [0x645, 0x631, 0x62D, 0x628, 0x627] (PyStr (u ''translate'')) (u ''Arabic''))
        \<longleftrightarrow> sublist diacritics_rule_arabic [0x645, 0x631, 0x62D, 0x628, 0x627]\<close>
    using translate_direction [of "[0x645, 0x631, 0x62D, 0x628, 0x627]"] by blast
  with n s show ?thesis by blast
qed

text \<open>
  C7. For the task \<open>tokenize\<close> the prompt is the tokenize template filled with the key
  \<open>arabic_tags\<close> when the source language is Arabic and with \<open>english_tags\<close> when it is
  English, so the line \<open>{"arabic_tags": []}\<close>, respectively \<open>{"english_tags": []}\<close>,
  is part of the prompt. The key is a function of the source language alone.
\<close>

theorem tokenize_json_key:
  \<open>create_prompt text (PyStr (u ''tokenize'')) (u ''Arabic'')
     = tokenize_template (u ''Arabic'') (u ''Arabic'') (u ''arabic_tags'') text
   \<and> create_prompt text (PyStr (u ''tokenize'')) (u ''English'')
     = tokenize_template (u ''English'') (u ''English'') (u ''english_tags'') text
   \<and> sublist (u ''{"arabic_tags": []}'') (create_prompt text (PyStr (u ''tokenize'')) (u ''Arabic''))
   \<and> sublist (u ''{"english_tags": []}'') (create_prompt text (PyStr (u ''tokenize'')) (u ''English''))\<close>
proof -
  have k: \<open>sublist (u ''{"'' @ json_key @ u ''": []}'') (tokenize_template source_lang tag_lang json_key text)\<close>
    for json_key source_lang tag_lang
    unfolding tokenize_template_def
    by (rule sublist_slot | rule sublist_skip)+ (simp add: u_def)
  have a: \<open>u ''{"arabic_tags": []}'' = u ''{"'' @ u ''arabic_tags'' @ u ''": []}''\<close>
    and e: \<open>u ''{"english_tags": []}'' = u ''{"'' @ u ''english_tags'' @ u ''": []}''\<close>
    by (simp_all add: u_def)
  have p: "create_prompt text (PyStr (u ''tokenize'')) (u ''Arabic'')
     = tokenize_template (u ''Arabic'') (u ''Arabic'') (u ''arabic_tags'') text"
    "create_prompt text (PyStr (u ''tokenize'')) (u ''English'')
     = tokenize_template (u ''English'') (u ''English'') (u ''english_tags'') text"
    by (simp_all add: create_prompt_def u_def)
  show ?thesis unfolding p a e using k by simp
qed

text \<open>
  C8. For every task value other than \<open>translate\<close>, \<open>tokenize\<close> and \<open>rephrase\<close>, and every
  text and source language, \<open>create_prompt\<close> returns the text itself; being a total
  function, it raises nothing.
\<close>

theorem create_prompt_fallback:
  "task \<noteq> PyStr (u ''translate'') \<Longrightarrow> task \<noteq> PyStr (u ''tokenize'') \<Longrightarrow> task \<noteq> PyStr (u ''rephrase'')
   \<Longrightarrow> create_prompt text task source_lang = text"
  by (simp add: create_prompt_def)

theorem create_prompt_fallback_witness:
  "PyStr (u ''summarize'') \<noteq> PyStr (u ''translate'') \<and> PyStr (u ''summarize'') \<noteq> PyStr (u ''tokenize'')
   \<and> PyStr (u ''summarize'') \<noteq> PyStr (u ''rephrase'')
   \<and> create_prompt (u ''Hello'') (PyStr (u ''summarize'')) (u ''English'') = u ''Hello''"
  using create_prompt_fallback [of "PyStr (u ''summarize'')" "u ''Hello''" "u ''English''"]
  by (simp add: u_def)

section \<open>Properties of the streaming relay\<close>

text \<open>
  What the generator does guarantee: a connection error before any line gives the single
  \<open>[ERROR]\<close> event, and whenever the generator ends without an uncaught exception, its
  last frame is one of the two sentinels.
\<close>

lemma generator_post_fails: "generator json_loads PostFails = ([error_event], None)"
  by (simp add: generator_def)

lemma generator_returns_sentinel:
  assumes "generator json_loads up = (out, None)"
  shows "\<exists>frames. out = frames @ [end_of_stream] \<or> out = frames @ [error_event]"
proof (cases up)
  case PostFails
  with assms show ?thesis by (auto simp: generator_def)
next
  case (Response lines)
  obtain frames r where l: "relay_loop json_loads lines = (frames, r)"
    by (cases "relay_loop json_loads lines")
  show ?thesis
  proof (cases r)
    case None
    with assms Response l show ?thesis by (auto simp: generator_def)
  next
    case (Some e)
    with assms Response l show ?thesis by (cases e) (auto simp: generator_def)
  qed
qed

text \<open>
  C1 at a failing input. The upstream answers and its only line is not JSON: the
  generator ends on the uncaught \<open>ValueError\<close> having yielded no frame at all, so
  the outbound stream carries neither sentinel.
\<close>

theorem generator_malformed_only_line:
  "generator sample_loads (Response (Next ''oops'' StopIteration)) = ([], Some ValueError)"
  by (simp add: generator_def sample_loads_def)

text \<open>
  C2 at a failing input. After one good line the upstream sends a line that is not
  JSON: the fragment of the first line is the whole outbound stream, the \<open>ValueError\<close>
  leaves the generator uncaught, and no \<open>[ERROR]\<close> event is emitted.
\<close>

theorem generator_malformed_later_line:
  \<open>generator sample_loads (Response (Next ''{"response": "Hi"}'' (Next ''<html>'' StopIteration)))
   = ([u ''data: Hi\<newline>\<newline>''], Some ValueError)\<close>
  by (simp add: generator_def sample_loads_def fragment_frames_def chunk_done_def
      clean_response_def arabic_diacritics_def u_def)

text \<open>
  C10. Let a non-empty line decode to a dict. If the dict carries a string under
  \<open>response\<close> and \<open>True\<close> under \<open>done\<close>, the loop yields the frame of the cleaned string
  and stops there, whatever the rest of the upstream is, so the stream is that frame
  followed by the end-of-stream event. If the dict has no \<open>done\<close> key, the test reads
  as false and the loop goes on with the rest of the upstream after the frames of this
  line.
\<close>

theorem relay_done_and_missing_done:
  assumes "chunk \<noteq> []" and "json_loads chunk = Some (PyDict kvs)"
  shows
   \<open>(map_of kvs (u ''response'') = Some (PyStr s) \<and> map_of kvs (u ''done'') = Some (PyBool True) \<longrightarrow>
       (\<exists>cleaned. clean_response (PyStr s) = Inr (PyStr cleaned)
          \<and> relay_loop json_loads (Next chunk rest) = ([u ''data: '' @ cleaned @ u ''\<newline>\<newline>''], None)
          \<and> generator json_loads (Response (Next chunk rest))
               = ([u ''data: '' @ cleaned @ u ''\<newline>\<newline>'', end_of_stream], None)))
    \<and> (map_of kvs (u ''done'') = None \<and> fragment_frames (PyDict kvs) = Inr frames \<longrightarrow>
         chunk_done (PyDict kvs) = Inr False
         \<and> relay_loop json_loads (Next chunk rest)
             = (frames @ fst (relay_loop json_loads rest), snd (relay_loop json_loads rest)))\<close>
proof (intro conjI impI)
  assume h: \<open>map_of kvs (u ''response'') = Some (PyStr s) \<and> map_of kvs (u ''done'') = Some (PyBool True)\<close>
  let ?c = "filter (\<lambda>c. \<not> arabic_diacritics c \<and> c \<noteq> 0x3F) s"
  have f: \<open>fragment_frames (PyDict kvs) = Inr [u ''data: '' @ ?c @ u ''\<newline>\<newline>'']\<close>
    using h by (simp add: fragment_frames_def clean_response_str)
  have d: "chunk_done (PyDict kvs) = Inr True"
    using h by (simp add: chunk_done_def)
  have l: \<open>relay_loop json_loads (Next chunk rest) = ([u ''data: '' @ ?c @ u ''\<newline>\<newline>''], None)\<close>
    using assms f d by simp
  show \<open>\<exists>cleaned. clean_response (PyStr s) = Inr (PyStr cleaned)
          \<and> relay_loop json_loads (Next chunk rest) = ([u ''data: '' @ cleaned @ u ''\<newline>\<newline>''], None)
          \<and> generator json_loads (Response (Next chunk rest))
               = ([u ''data: '' @ cleaned @ u ''\<newline>\<newline>'', end_of_stream], None)\<close>
    using l by (simp add: clean_response_str generator_def)
next
  assume h: \<open>map_of kvs (u ''done'') = None \<and> fragment_frames (PyDict kvs) = Inr frames\<close>
  then show d: "chunk_done (PyDict kvs) = Inr False"
    by (simp add: chunk_done_def)
  show "relay_loop json_loads (Next chunk rest)
             = (frames @ fst (relay_loop json_loads rest), snd (relay_loop json_loads rest))"
    using assms h d by (simp add: split_beta)
qed

theorem relay_done_and_missing_done_witness:
  \<open>relay_loop sample_loads (Next ''{"response": "Hi?", "done": true}'' Broken) = ([u ''data: Hi\<newline>\<newline>''], None)
   \<and> generator sample_loads (Response (Next ''{"response": "Hi?", "done": true}'' Broken))
       = ([u ''data: Hi\<newline>\<newline>'', end_of_stream], None)
   \<and> relay_loop sample_loads (Next ''{"response": "Hi"}'' Broken) = ([u ''data: Hi\<newline>\<newline>''], Some RequestException)\<close>
proof -
  have n1: \<open>''{"response": "Hi?", "done": true}'' \<noteq> []\<close> and n2: \<open>''{"response": "Hi"}'' \<noteq> []\<close>
    by simp_all
  have l1: \<open>sample_loads ''{"response": "Hi?", "done": true}''
             = Some (PyDict [(u ''response'', PyStr (u ''Hi?'')), (u ''done'', PyBool True)])\<close>
    and l2: \<open>sample_loads ''{"response": "Hi"}'' = Some (PyDict [(u ''response'', PyStr (u ''Hi''))])\<close>
    by (simp_all add: sample_loads_def)
  have c: \<open>clean_response (PyStr (u ''Hi?'')) = Inr (PyStr (u ''Hi''))\<close>
    by (simp add: clean_response_def arabic_diacritics_def u_def)
  have f: \<open>fragment_frames (PyDict [(u ''response'', PyStr (u ''Hi''))]) = Inr [u ''data: Hi\<newline>\<newline>'']\<close>
    by (simp add: fragment_frames_def clean_response_def arabic_diacritics_def u_def)
  have m1: \<open>map_of [(u ''response'', PyStr (u ''Hi?'')), (u ''done'', PyBool True)] (u ''response'') = Some (PyStr (u ''Hi?''))
       \<and> map_of [(u ''response'', PyStr (u ''Hi?'')), (u ''done'', PyBool True)] (u ''done'') = Some (PyBool True)\<close>
    and m2: \<open>map_of [(u ''response'', PyStr (u ''Hi''))] (u ''done'') = None\<close>
    by (simp_all add: u_def)
  show ?thesis
    using relay_done_and_missing_done [where json_loads = sample_loads and s = "u ''Hi?''"
          and rest = Broken and frames = "[]", OF n1 l1]
      relay_done_and_missing_done [where json_loads = sample_loads and s = "[]"
          and rest = Broken and frames = \<open>[u ''data: Hi\<newline>\<newline>'']\<close>, OF n2 l2]
      c f m1 m2
    by (simp add: u_def)
qed

end
